theory Spec2Isabelle
  imports Main "HOL-Library.Word"
begin

section \<open>Values of the untyped parts of the program\<close>

text \<open>
  The request bodies, the query parameters and the responses of the client are of
  TypeScript's type \<open>any\<close>. They are modelled by the JavaScript values a JSON exchange
  can produce. An object is the list of its own fields, read with \<open>map_of\<close> (the first
  binding of a name is the field), each a data field as \<open>JSON.parse\<close> makes it,
  whatever its name; it inherits from \<open>Object.prototype\<close> and none of its fields is a
  function. A number is an integer from \<open>-2^53\<close> to \<open>2^53 - 1\<close>, the
  signed value of a 54-bit word: each of them is a JavaScript number, and JavaScript
  prints it in plain decimal notation.
\<close>

datatype jsval =
    JUndefined
  | JNull
  | JBool bool
  | JNum "54 word"
  | JStr string
  | JArr "jsval list"
  | JObj "(string \<times> jsval) list"

datatype js_error = TypeError

text \<open>
  Reading a field \<open>v.name\<close> of a value of type \<open>any\<close>, for a name that is not a
  built-in property (the source reads \<open>accounts\<close>, \<open>account_ids\<close>, \<open>roles\<close>,
  \<open>users\<close> and \<open>access_keys\<close>): JavaScript throws a TypeError on \<open>undefined\<close> and
  \<open>null\<close>, gives the field of an object that has it, and \<open>undefined\<close> everywhere
  else.
\<close>

fun get_field :: "jsval \<Rightarrow> string \<Rightarrow> js_error + jsval" where
  "get_field JUndefined name = Inl TypeError"
| "get_field JNull name = Inl TypeError"
| "get_field (JObj fields) name =
     Inr (case map_of fields name of None \<Rightarrow> JUndefined | Some v \<Rightarrow> v)"
| "get_field v name = Inr JUndefined"

text \<open>Decimal notation of an integer that is not negative, most significant digit first.\<close>

function decimal :: "int \<Rightarrow> string" where
  "decimal n =
     (if n < 10 then [''0123456789'' ! nat n]
      else decimal (n div 10) @ [''0123456789'' ! nat (n mod 10)])"
  by pat_completeness auto
termination
  by (relation "measure nat") auto

text \<open>
  The string a template literal splices in for \<open>${v}\<close>: JavaScript's ToString, which
  can throw. A plain object without a field \<open>toString\<close> of its own is
  \<open>[object Object]\<close>, by the method it inherits. With a field \<open>toString\<close> of its own,
  which is no function, the conversion finds no method that gives a primitive value
  and throws a TypeError. An array is the comma-separated list of its elements
  (\<open>Array_join\<close>), where \<open>undefined\<close> and \<open>null\<close> elements are empty and the
  conversion of any other element can throw.
\<close>

definition Boolean_toString :: "bool \<Rightarrow> string" where
  "Boolean_toString b = (if b then ''true'' else ''false'')"

fun toString :: "jsval \<Rightarrow> js_error + string"
  and Array_join :: "jsval list \<Rightarrow> js_error + string" where
  "toString JUndefined = Inr ''undefined''"
| "toString JNull = Inr ''null''"
| "toString (JBool b) = Inr (Boolean_toString b)"
| "toString (JNum n) =
     Inr (if sint n < 0 then ''-'' @ decimal (- sint n) else decimal (sint n))"
| "toString (JStr s) = Inr s"
| "toString (JArr vs) = Array_join vs"
| "toString (JObj fields) =
     (case map_of fields ''toString'' of
        None \<Rightarrow> Inr ''[object Object]''
      | Some f \<Rightarrow> Inl TypeError)"
| "Array_join [] = Inr ''''"
| "Array_join (v # vs) =
     (case (if v = JUndefined \<or> v = JNull then Inr '''' else toString v) of
        Inl e \<Rightarrow> Inl e
      | Inr s \<Rightarrow>
          (if vs = [] then Inr s
           else (case Array_join vs of Inl e \<Rightarrow> Inl e | Inr r \<Rightarrow> Inr (s @ '','' @ r))))"

section \<open>The client's interface\<close>

text \<open>
  \<open>APIRequestParams\<close> of the client library, with the fields the source sets. Every
  field is optional: \<open>None\<close> is a field the object literal leaves out (or sets to
  \<open>undefined\<close>, as \<open>params: queryParams\<close> does when the caller passes no query).
\<close>

record APIRequestParams =
  service_name :: "string option"
  environment :: "string option"
  account_id :: "string option"
  path :: "string option"
  params :: "jsval option"
  data :: "jsval option"
  ttl :: "int option"
  retry_count :: "int option"

definition no_fields :: APIRequestParams where
  "no_fields = \<lparr>service_name = None, environment = None, account_id = None, path = None,
     params = None, data = None, ttl = None, retry_count = None\<rparr>"

text \<open>
  One call of a method of the client: \<open>fetch\<close>, \<open>post\<close>, \<open>set\<close> and \<open>delete\<close> take a
  request descriptor, the two authentication methods take their arguments one by one
  (the optional MFA code of \<open>authenticate\<close> is \<open>None\<close> when it is left out).
\<close>

datatype client_call =
    Client_fetch (request: APIRequestParams)
  | Client_post (request: APIRequestParams)
  | Client_set (request: APIRequestParams)
  | Client_delete (request: APIRequestParams)
  | Client_authenticate string string "string option" string
  | Client_authenticateWithMFASessionToken string string string

text \<open>
  An asynchronous method of the class awaits one call of the client and then computes
  its result from the value the client resolved with. \<open>Await c k\<close> is that method
  body: \<open>c\<close> is the call, \<open>k\<close> what the method does with the awaited value. A method
  that throws while it still builds the argument of the call is \<open>Throw e\<close>: it calls
  nothing.
\<close>

datatype pending =
    is_Await: Await (issued: client_call) (continuation: "jsval \<Rightarrow> js_error + jsval")
  | Throw js_error

datatype 'e failure = Thrown js_error | Rejected 'e

section \<open>The class AIMSClientInstance\<close>

record 'c AIMSClientInstance =
  this_client :: 'c
  this_serviceName :: string
  this_environment :: string

text \<open>
  The constructor: \<open>client || AlDefaultClient\<close>, with the imported default client as a
  parameter (\<open>None\<close> is the argument left out or \<open>null\<close>), and the two field
  initialisers.
\<close>

definition new_AIMSClientInstance :: "'c \<Rightarrow> 'c option \<Rightarrow> 'c AIMSClientInstance" where
  "new_AIMSClientInstance AlDefaultClient client =
     \<lparr>this_client = (case client of None \<Rightarrow> AlDefaultClient | Some c \<Rightarrow> c),
      this_serviceName = ''aims'',
      this_environment = ''production''\<rparr>"

text \<open>
  Running a method of an instance whose client is given as the function from a call to
  what its promise settles to (\<open>Inl\<close> a rejection, \<open>Inr\<close> the resolved value). The
  source catches nothing: a rejection of the client is the rejection of the method, and
  so is an error thrown before the call or after the client resolved.
\<close>

fun run :: "(client_call \<Rightarrow> 'e + jsval) AIMSClientInstance \<Rightarrow> pending \<Rightarrow> 'e failure + jsval" where
  "run this (Await c k) =
     (case this_client this c of
        Inl e \<Rightarrow> Inl (Rejected e)
      | Inr v \<Rightarrow> (case k v of Inl t \<Rightarrow> Inl (Thrown t) | Inr r \<Rightarrow> Inr r))"
| "run this (Throw e) = Inl (Thrown e)"

text \<open>
  The methods, in the order of the source. A template literal is the concatenation of
  its pieces; a cast \<open>as T\<close> does nothing at run time, so a method that returns the
  awaited value continues with \<open>Inr\<close>. An argument of type \<open>string\<close> is spliced in as
  it is, one of type \<open>boolean\<close> as \<open>true\<close> or \<open>false\<close>. An argument without a type
  (\<open>permissions\<close>, \<open>codes\<close>) is converted by \<open>toString\<close> while the object literal is
  evaluated: when that throws, the client is not called.
\<close>

text \<open>POST /aims/v1/:account_id/users\<close>

definition createUser ::
  "'c AIMSClientInstance \<Rightarrow> string \<Rightarrow> string \<Rightarrow> string \<Rightarrow> string \<Rightarrow> pending" where
  \<open>createUser this accountId name email mobilePhone =
     Await (Client_post (no_fields\<lparr>
         service_name := Some (this_serviceName this),
         environment := Some (this_environment this),
         account_id := Some accountId,
         path := Some ''/users'',
         data := Some (JStr (''{"name": "'' @ name @ ''", "email": "'' @ email
                   @ ''", "mobile_phone": "'' @ mobilePhone @ ''"}''))\<rparr>))
       Inr\<close>

text \<open>DELETE /aims/v1/:account_id/users/:user_id\<close>

definition deleteUser ::
  "'c AIMSClientInstance \<Rightarrow> string \<Rightarrow> string \<Rightarrow> pending" where
  \<open>deleteUser this accountId userId =
     Await (Client_delete (no_fields\<lparr>
         service_name := Some (this_serviceName this),
         environment := Some (this_environment this),
         account_id := Some accountId,
         path := Some (''/users/'' @ userId)\<rparr>))
       Inr\<close>

text \<open>GET /aims/v1/:account_id/users/:user_id\<close>

definition getUserDetailsById ::
  "'c AIMSClientInstance \<Rightarrow> string \<Rightarrow> string \<Rightarrow> pending" where
  \<open>getUserDetailsById this accountId userId =
     Await (Client_fetch (no_fields\<lparr>
         service_name := Some (this_serviceName this),
         environment := Some (this_environment this),
         account_id := Some accountId,
         path := Some (''/users/'' @ userId),
         retry_count := Some 5\<rparr>))
       Inr\<close>

text \<open>GET /aims/v1/:account_id/users/:user_id/permissions\<close>

definition getUserPermissions ::
  "'c AIMSClientInstance \<Rightarrow> string \<Rightarrow> string \<Rightarrow> pending" where
  \<open>getUserPermissions this accountId userId =
     Await (Client_fetch (no_fields\<lparr>
         service_name := Some (this_serviceName this),
         environment := Some (this_environment this),
         account_id := Some accountId,
         path := Some (''/users/'' @ userId @ ''/permissions'')\<rparr>))
       Inr\<close>

text \<open>GET /aims/v1/:account_id/account\<close>

definition getAccountDetails ::
  "'c AIMSClientInstance \<Rightarrow> string \<Rightarrow> pending" where
  \<open>getAccountDetails this accountId =
     Await (Client_fetch (no_fields\<lparr>
         service_name := Some (this_serviceName this),
         environment := Some (this_environment this),
         account_id := Some accountId,
         path := Some ''/account'',
         retry_count := Some 5\<rparr>))
       Inr\<close>

text \<open>GET /aims/v1/:account_id/accounts/:relationship; returns \<open>managedAccounts.accounts\<close>\<close>

definition getManagedAccounts ::
  "'c AIMSClientInstance \<Rightarrow> string \<Rightarrow> jsval option \<Rightarrow> pending" where
  \<open>getManagedAccounts this accountId queryParams =
     Await (Client_fetch (no_fields\<lparr>
         service_name := Some (this_serviceName this),
         environment := Some (this_environment this),
         account_id := Some accountId,
         path := Some ''/accounts/managed'',
         params := queryParams,
         retry_count := Some 5\<rparr>))
       (\<lambda>managedAccounts. get_field managedAccounts ''accounts'')\<close>

text \<open>GET /aims/v1/:account_id/account_ids/:relationship; returns \<open>managedAccountIds.account_ids\<close>\<close>

definition getManagedAccountIds ::
  "'c AIMSClientInstance \<Rightarrow> string \<Rightarrow> jsval option \<Rightarrow> pending" where
  \<open>getManagedAccountIds this accountId queryParams =
     Await (Client_fetch (no_fields\<lparr>
         service_name := Some (this_serviceName this),
         environment := Some (this_environment this),
         account_id := Some accountId,
         path := Some ''/account_ids/managed'',
         params := queryParams,
         retry_count := Some 5\<rparr>))
       (\<lambda>managedAccountIds. get_field managedAccountIds ''account_ids'')\<close>

text \<open>POST /aims/v1/:account_id/account\<close>

definition requireMFA ::
  "'c AIMSClientInstance \<Rightarrow> string \<Rightarrow> bool \<Rightarrow> pending" where
  \<open>requireMFA this accountId mfaRequired =
     Await (Client_post (no_fields\<lparr>
         service_name := Some (this_serviceName this),
         environment := Some (this_environment this),
         account_id := Some accountId,
         path := Some ''/account'',
         data := Some (JStr (''{mfa_required: '' @ Boolean_toString mfaRequired @ ''}''))\<rparr>))
       Inr\<close>

text \<open>POST /aims/v1/authenticate: the client's own method, given the current environment.\<close>

definition authenticate ::
  "'c AIMSClientInstance \<Rightarrow> string \<Rightarrow> string \<Rightarrow> string option \<Rightarrow> pending" where
  "authenticate this user pass mfa =
     Await (Client_authenticate user pass mfa (this_environment this)) Inr"

definition authenticateWithMFASessionToken ::
  "'c AIMSClientInstance \<Rightarrow> string \<Rightarrow> string \<Rightarrow> pending" where
  "authenticateWithMFASessionToken this token mfa =
     Await (Client_authenticateWithMFASessionToken token mfa (this_environment this)) Inr"

text \<open>POST /aims/v1/change_password\<close>

definition changePassword ::
  "'c AIMSClientInstance \<Rightarrow> string \<Rightarrow> string \<Rightarrow> string \<Rightarrow> pending" where
  \<open>changePassword this email password newPassword =
     Await (Client_post (no_fields\<lparr>
         service_name := Some (this_serviceName this),
         environment := Some (this_environment this),
         path := Some ''/change_password'',
         data := Some (JStr (''{email: '' @ email @ '', current_password: '' @ password
                   @ '', new_password: '' @ newPassword @ ''}''))\<rparr>))
       Inr\<close>

text \<open>GET /aims/v1/token_info\<close>

definition tokenInfo ::
  "'c AIMSClientInstance \<Rightarrow> pending" where
  \<open>tokenInfo this =
     Await (Client_fetch (no_fields\<lparr>
         service_name := Some (this_serviceName this),
         environment := Some (this_environment this),
         path := Some ''/token_info''\<rparr>))
       Inr\<close>

text \<open>POST /aims/v1/reset_password\<close>

definition initiateReset ::
  "'c AIMSClientInstance \<Rightarrow> string \<Rightarrow> string \<Rightarrow> pending" where
  \<open>initiateReset this email returnTo =
     Await (Client_post (no_fields\<lparr>
         service_name := Some (this_serviceName this),
         environment := Some (this_environment this),
         path := Some ''/reset_password'',
         data := Some (JStr (''{email: '' @ email @ '', return_to: '' @ returnTo @ ''}''))\<rparr>))
       Inr\<close>

text \<open>PUT /aims/v1/reset_password/:token\<close>

definition resetWithToken ::
  "'c AIMSClientInstance \<Rightarrow> string \<Rightarrow> string \<Rightarrow> pending" where
  \<open>resetWithToken this token password =
     Await (Client_set (no_fields\<lparr>
         service_name := Some (this_serviceName this),
         environment := Some (this_environment this),
         path := Some (''/reset_password/'' @ token),
         data := Some (JStr (''{password: '' @ password @ ''}''))\<rparr>))
       Inr\<close>

text \<open>POST /aims/v1/:account_id/roles\<close>

definition createRole ::
  "'c AIMSClientInstance \<Rightarrow> string \<Rightarrow> string \<Rightarrow> jsval \<Rightarrow> pending" where
  \<open>createRole this accountId name permissions =
     (case toString permissions of
        Inl e \<Rightarrow> Throw e
      | Inr text \<Rightarrow>
          Await (Client_post (no_fields\<lparr>
              service_name := Some (this_serviceName this),
              environment := Some (this_environment this),
              account_id := Some accountId,
              path := Some ''/roles'',
              data := Some (JStr (''{name: '' @ name @ '', permissions: '' @ text @ ''}''))\<rparr>))
            Inr)\<close>

text \<open>DELETE /aims/v1/:account_id/roles/:role_id\<close>

definition deleteRole ::
  "'c AIMSClientInstance \<Rightarrow> string \<Rightarrow> string \<Rightarrow> pending" where
  \<open>deleteRole this accountId roleId =
     Await (Client_delete (no_fields\<lparr>
         service_name := Some (this_serviceName this),
         environment := Some (this_environment this),
         account_id := Some accountId,
         path := Some (''/roles/'' @ roleId)\<rparr>))
       Inr\<close>

text \<open>GET /aims/v1/roles/:role_id\<close>

definition getGlobalRole ::
  "'c AIMSClientInstance \<Rightarrow> string \<Rightarrow> pending" where
  \<open>getGlobalRole this roleId =
     Await (Client_fetch (no_fields\<lparr>
         service_name := Some (this_serviceName this),
         environment := Some (this_environment this),
         path := Some (''/roles/'' @ roleId)\<rparr>))
       Inr\<close>

text \<open>GET /aims/v1/:account_id/roles/:role_id\<close>

definition getAccountRole ::
  "'c AIMSClientInstance \<Rightarrow> string \<Rightarrow> string \<Rightarrow> pending" where
  \<open>getAccountRole this accountId roleId =
     Await (Client_fetch (no_fields\<lparr>
         service_name := Some (this_serviceName this),
         environment := Some (this_environment this),
         account_id := Some accountId,
         path := Some (''/roles/'' @ roleId)\<rparr>))
       Inr\<close>

text \<open>GET /aims/v1/roles; returns \<open>roles.roles\<close>\<close>

definition getGlobalRoles ::
  "'c AIMSClientInstance \<Rightarrow> pending" where
  \<open>getGlobalRoles this =
     Await (Client_fetch (no_fields\<lparr>
         service_name := Some (this_serviceName this),
         environment := Some (this_environment this),
         path := Some ''/roles''\<rparr>))
       (\<lambda>roles. get_field roles ''roles'')\<close>

text \<open>GET /aims/v1/:account_id/roles; returns \<open>roles.roles\<close>\<close>

definition getAccountRoles ::
  "'c AIMSClientInstance \<Rightarrow> string \<Rightarrow> pending" where
  \<open>getAccountRoles this accountId =
     Await (Client_fetch (no_fields\<lparr>
         service_name := Some (this_serviceName this),
         environment := Some (this_environment this),
         account_id := Some accountId,
         path := Some ''/roles''\<rparr>))
       (\<lambda>roles. get_field roles ''roles'')\<close>

text \<open>documented as POST /aims/v1/:account_id/roles/:role_id\<close>

definition updateRole ::
  "'c AIMSClientInstance \<Rightarrow> string \<Rightarrow> string \<Rightarrow> jsval \<Rightarrow> pending" where
  \<open>updateRole this accountId name permissions =
     (case toString permissions of
        Inl e \<Rightarrow> Throw e
      | Inr text \<Rightarrow>
          Await (Client_post (no_fields\<lparr>
              service_name := Some (this_serviceName this),
              environment := Some (this_environment this),
              account_id := Some accountId,
              path := Some ''/roles'',
              data := Some (JStr (''{name: '' @ name @ '', permissions: '' @ text @ ''}''))\<rparr>))
            Inr)\<close>

text \<open>documented as POST /aims/v1/:account_id/roles/:role_id\<close>

definition updateRoleName ::
  "'c AIMSClientInstance \<Rightarrow> string \<Rightarrow> string \<Rightarrow> pending" where
  \<open>updateRoleName this accountId name =
     Await (Client_post (no_fields\<lparr>
         service_name := Some (this_serviceName this),
         environment := Some (this_environment this),
         account_id := Some accountId,
         path := Some ''/roles'',
         data := Some (JStr (''{name: '' @ name @ ''}''))\<rparr>))
       Inr\<close>

text \<open>documented as POST /aims/v1/:account_id/roles/:role_id\<close>

definition updateRolePermissions ::
  "'c AIMSClientInstance \<Rightarrow> string \<Rightarrow> jsval \<Rightarrow> pending" where
  \<open>updateRolePermissions this accountId permissions =
     (case toString permissions of
        Inl e \<Rightarrow> Throw e
      | Inr text \<Rightarrow>
          Await (Client_post (no_fields\<lparr>
              service_name := Some (this_serviceName this),
              environment := Some (this_environment this),
              account_id := Some accountId,
              path := Some ''/roles'',
              data := Some (JStr (''{permissions: '' @ text @ ''}''))\<rparr>))
            Inr)\<close>

text \<open>POST /aims/v1/user/mfa/enroll\<close>

definition enrollMFA ::
  "'c AIMSClientInstance \<Rightarrow> string \<Rightarrow> jsval \<Rightarrow> pending" where
  \<open>enrollMFA this uri codes =
     (case toString codes of
        Inl e \<Rightarrow> Throw e
      | Inr text \<Rightarrow>
          Await (Client_post (no_fields\<lparr>
              service_name := Some (this_serviceName this),
              environment := Some (this_environment this),
              path := Some ''/user/mfa/enroll'',
              data := Some (JStr (''{mfa_uri: '' @ uri @ '', mfa_codes: '' @ text @ ''}''))\<rparr>))
            Inr)\<close>

text \<open>DELETE /aims/v1/user/mfa/:email\<close>

definition deleteMFA ::
  "'c AIMSClientInstance \<Rightarrow> string \<Rightarrow> pending" where
  \<open>deleteMFA this email =
     Await (Client_delete (no_fields\<lparr>
         service_name := Some (this_serviceName this),
         environment := Some (this_environment this),
         path := Some (''/user/mfa/'' @ email)\<rparr>))
       Inr\<close>

text \<open>GET of one user, with optional query parameters\<close>

definition getUserDetails ::
  "'c AIMSClientInstance \<Rightarrow> string \<Rightarrow> string \<Rightarrow> jsval option \<Rightarrow> pending" where
  \<open>getUserDetails this accountId userId queryParams =
     Await (Client_fetch (no_fields\<lparr>
         service_name := Some (this_serviceName this),
         environment := Some (this_environment this),
         account_id := Some accountId,
         path := Some (''/users/'' @ userId),
         params := queryParams\<rparr>))
       Inr\<close>

text \<open>GET /aims/v1/:account_id/users; returns \<open>users.users\<close>\<close>

definition getUsers ::
  "'c AIMSClientInstance \<Rightarrow> string \<Rightarrow> jsval option \<Rightarrow> pending" where
  \<open>getUsers this accountId queryParams =
     Await (Client_fetch (no_fields\<lparr>
         service_name := Some (this_serviceName this),
         environment := Some (this_environment this),
         account_id := Some accountId,
         path := Some ''/users'',
         params := queryParams\<rparr>))
       (\<lambda>users. get_field users ''users'')\<close>

text \<open>POST /aims/v1/:account_id/users/:user_id/access_keys\<close>

definition createAccessKey ::
  "'c AIMSClientInstance \<Rightarrow> string \<Rightarrow> string \<Rightarrow> string \<Rightarrow> pending" where
  \<open>createAccessKey this accountId userId label =
     Await (Client_post (no_fields\<lparr>
         service_name := Some (this_serviceName this),
         environment := Some (this_environment this),
         account_id := Some accountId,
         path := Some (''/users/'' @ userId @ ''/access_keys''),
         data := Some (JStr (''{"label": "'' @ label @ ''"}''))\<rparr>))
       Inr\<close>

text \<open>POST /aims/v1/access_keys/:access_key_id\<close>

definition updateAccessKey ::
  "'c AIMSClientInstance \<Rightarrow> string \<Rightarrow> string \<Rightarrow> pending" where
  \<open>updateAccessKey this accessKeyId label =
     Await (Client_post (no_fields\<lparr>
         service_name := Some (this_serviceName this),
         environment := Some (this_environment this),
         path := Some (''/access_keys/'' @ accessKeyId),
         data := Some (JStr (''{"label": "'' @ label @ ''"}''))\<rparr>))
       Inr\<close>

text \<open>GET /aims/v1/access_keys/:access_key_id\<close>

definition getAccessKey ::
  "'c AIMSClientInstance \<Rightarrow> string \<Rightarrow> pending" where
  \<open>getAccessKey this accessKeyId =
     Await (Client_fetch (no_fields\<lparr>
         service_name := Some (this_serviceName this),
         environment := Some (this_environment this),
         path := Some (''/access_keys/'' @ accessKeyId)\<rparr>))
       Inr\<close>

text \<open>
  GET /aims/v1/:account_id/users/:user_id/access_keys?out=:out; the parameter \<open>ttl\<close>
  (here \<open>ttl'\<close>) is 60000 when it is left out; returns \<open>keys.access_keys\<close>
\<close>

definition getAccessKeys ::
  "'c AIMSClientInstance \<Rightarrow> string \<Rightarrow> string \<Rightarrow> int option \<Rightarrow> pending" where
  \<open>getAccessKeys this accountId userId ttl' =
     Await (Client_fetch (no_fields\<lparr>
         service_name := Some (this_serviceName this),
         environment := Some (this_environment this),
         account_id := Some accountId,
         ttl := Some (case ttl' of None \<Rightarrow> 60000 | Some t \<Rightarrow> t),
         path := Some (''/users/'' @ userId @ ''/access_keys?out=full'')\<rparr>))
       (\<lambda>keys. get_field keys ''access_keys'')\<close>

text \<open>DELETE /aims/v1/:account_id/users/:user_id/access_keys/:access_key_id\<close>

definition deleteAccessKey ::
  "'c AIMSClientInstance \<Rightarrow> string \<Rightarrow> string \<Rightarrow> string \<Rightarrow> pending" where
  \<open>deleteAccessKey this accountId userId accessKeyId =
     Await (Client_delete (no_fields\<lparr>
         service_name := Some (this_serviceName this),
         environment := Some (this_environment this),
         account_id := Some accountId,
         path := Some (''/users/'' @ userId @ ''/access_keys/'' @ accessKeyId)\<rparr>))
       Inr\<close>

text \<open>The two setters assign the field \<open>environment\<close> and call nothing.\<close>

definition setProductionEnv :: "'c AIMSClientInstance \<Rightarrow> 'c AIMSClientInstance" where
  "setProductionEnv this = this\<lparr>this_environment := ''production''\<rparr>"

definition setIntegrationEnv :: "'c AIMSClientInstance \<Rightarrow> 'c AIMSClientInstance" where
  "setIntegrationEnv this = this\<lparr>this_environment := ''integration''\<rparr>"

text \<open>The exported instance: \<open>new AIMSClientInstance()\<close>, on the default client.\<close>

definition AIMSClient :: "'c \<Rightarrow> 'c AIMSClientInstance" where
  "AIMSClient AlDefaultClient = new_AIMSClientInstance AlDefaultClient None"

section \<open>Using an instance\<close>

text \<open>
  One use of an instance is a call of one of its public methods with its arguments.
  \<open>invoke\<close> gives what the method does with the client (nothing for the two setters)
  and the instance as the method leaves it: only the setters assign a field.
\<close>

datatype method_call =
    Call_createUser string string string string
  | Call_deleteUser string string
  | Call_getUserDetailsById string string
  | Call_getUserPermissions string string
  | Call_getAccountDetails string
  | Call_getManagedAccounts string "jsval option"
  | Call_getManagedAccountIds string "jsval option"
  | Call_requireMFA string bool
  | Call_authenticate string string "string option"
  | Call_authenticateWithMFASessionToken string string
  | Call_changePassword string string string
  | Call_tokenInfo
  | Call_initiateReset string string
  | Call_resetWithToken string string
  | Call_createRole string string jsval
  | Call_deleteRole string string
  | Call_getGlobalRole string
  | Call_getAccountRole string string
  | Call_getGlobalRoles
  | Call_getAccountRoles string
  | Call_updateRole string string jsval
  | Call_updateRoleName string string
  | Call_updateRolePermissions string jsval
  | Call_enrollMFA string jsval
  | Call_deleteMFA string
  | Call_getUserDetails string string "jsval option"
  | Call_getUsers string "jsval option"
  | Call_createAccessKey string string string
  | Call_updateAccessKey string string
  | Call_getAccessKey string
  | Call_getAccessKeys string string "int option"
  | Call_deleteAccessKey string string string
  | Call_setProductionEnv
  | Call_setIntegrationEnv

fun invoke :: "'c AIMSClientInstance \<Rightarrow> method_call \<Rightarrow> pending option \<times> 'c AIMSClientInstance" where
  "invoke this (Call_createUser x1 x2 x3 x4) = (Some (createUser this x1 x2 x3 x4), this)"
| "invoke this (Call_deleteUser x1 x2) = (Some (deleteUser this x1 x2), this)"
| "invoke this (Call_getUserDetailsById x1 x2) = (Some (getUserDetailsById this x1 x2), this)"
| "invoke this (Call_getUserPermissions x1 x2) = (Some (getUserPermissions this x1 x2), this)"
| "invoke this (Call_getAccountDetails x1) = (Some (getAccountDetails this x1), this)"
| "invoke this (Call_getManagedAccounts x1 x2) = (Some (getManagedAccounts this x1 x2), this)"
| "invoke this (Call_getManagedAccountIds x1 x2) = (Some (getManagedAccountIds this x1 x2), this)"
| "invoke this (Call_requireMFA x1 x2) = (Some (requireMFA this x1 x2), this)"
| "invoke this (Call_authenticate x1 x2 x3) = (Some (authenticate this x1 x2 x3), this)"
| "invoke this (Call_authenticateWithMFASessionToken x1 x2) = (Some (authenticateWithMFASessionToken this x1 x2), this)"
| "invoke this (Call_changePassword x1 x2 x3) = (Some (changePassword this x1 x2 x3), this)"
| "invoke this Call_tokenInfo = (Some (tokenInfo this), this)"
| "invoke this (Call_initiateReset x1 x2) = (Some (initiateReset this x1 x2), this)"
| "invoke this (Call_resetWithToken x1 x2) = (Some (resetWithToken this x1 x2), this)"
| "invoke this (Call_createRole x1 x2 x3) = (Some (createRole this x1 x2 x3), this)"
| "invoke this (Call_deleteRole x1 x2) = (Some (deleteRole this x1 x2), this)"
| "invoke this (Call_getGlobalRole x1) = (Some (getGlobalRole this x1), this)"
| "invoke this (Call_getAccountRole x1 x2) = (Some (getAccountRole this x1 x2), this)"
| "invoke this Call_getGlobalRoles = (Some (getGlobalRoles this), this)"
| "invoke this (Call_getAccountRoles x1) = (Some (getAccountRoles this x1), this)"
| "invoke this (Call_updateRole x1 x2 x3) = (Some (updateRole this x1 x2 x3), this)"
| "invoke this (Call_updateRoleName x1 x2) = (Some (updateRoleName this x1 x2), this)"
| "invoke this (Call_updateRolePermissions x1 x2) = (Some (updateRolePermissions this x1 x2), this)"
| "invoke this (Call_enrollMFA x1 x2) = (Some (enrollMFA this x1 x2), this)"
| "invoke this (Call_deleteMFA x1) = (Some (deleteMFA this x1), this)"
| "invoke this (Call_getUserDetails x1 x2 x3) = (Some (getUserDetails this x1 x2 x3), this)"
| "invoke this (Call_getUsers x1 x2) = (Some (getUsers this x1 x2), this)"
| "invoke this (Call_createAccessKey x1 x2 x3) = (Some (createAccessKey this x1 x2 x3), this)"
| "invoke this (Call_updateAccessKey x1 x2) = (Some (updateAccessKey this x1 x2), this)"
| "invoke this (Call_getAccessKey x1) = (Some (getAccessKey this x1), this)"
| "invoke this (Call_getAccessKeys x1 x2 x3) = (Some (getAccessKeys this x1 x2 x3), this)"
| "invoke this (Call_deleteAccessKey x1 x2 x3) = (Some (deleteAccessKey this x1 x2 x3), this)"
| "invoke this Call_setProductionEnv = (None, setProductionEnv this)"
| "invoke this Call_setIntegrationEnv = (None, setIntegrationEnv this)"

text \<open>
  Sequential use of one instance: the method calls are made one after the other, each
  on the instance as the one before left it. The result is the list of the client
  calls issued, in order, and the instance at the end. A method that throws before its
  call adds nothing to the list.
\<close>

fun session :: "'c AIMSClientInstance \<Rightarrow> method_call list \<Rightarrow> client_call list \<times> 'c AIMSClientInstance" where
  "session this [] = ([], this)"
| "session this (m # ms) =
     (case invoke this m of
        (None, this') \<Rightarrow> session this' ms
      | (Some (Throw e), this') \<Rightarrow> session this' ms
      | (Some (Await c k), this') \<Rightarrow>
          (case session this' ms of (cs, final) \<Rightarrow> (c # cs, final)))"

text \<open>
  The environment a client call is tagged with: the field of the descriptor, or the
  last argument of the two authentication methods. The service name is a field of the
  descriptor only; the authentication methods are given none.
\<close>

fun environment_of :: "client_call \<Rightarrow> string option" where
  "environment_of (Client_authenticate user pass mfa env) = Some env"
| "environment_of (Client_authenticateWithMFASessionToken token mfa env) = Some env"
| "environment_of c = environment (request c)"

fun service_name_of :: "client_call \<Rightarrow> string option" where
  "service_name_of (Client_authenticate user pass mfa env) = None"
| "service_name_of (Client_authenticateWithMFASessionToken token mfa env) = None"
| "service_name_of c = service_name (request c)"

fun is_setter :: "method_call \<Rightarrow> bool" where
  "is_setter Call_setProductionEnv = True"
| "is_setter Call_setIntegrationEnv = True"
| "is_setter m = False"

fun authenticates :: "method_call \<Rightarrow> bool" where
  "authenticates (Call_authenticate user pass mfa) = True"
| "authenticates (Call_authenticateWithMFASessionToken token mfa) = True"
| "authenticates m = False"

text \<open>
  The method calls that splice an argument without a type into their payload: the only
  ones that can throw before their client call.
\<close>

fun splices_untyped :: "method_call \<Rightarrow> bool" where
  "splices_untyped (Call_createRole accountId name permissions) = True"
| "splices_untyped (Call_updateRole accountId name permissions) = True"
| "splices_untyped (Call_updateRolePermissions accountId permissions) = True"
| "splices_untyped (Call_enrollMFA uri codes) = True"
| "splices_untyped m = False"

text \<open>Whether a method call, made on an instance, issues a call of the client.\<close>

definition issues_call :: "'c AIMSClientInstance \<Rightarrow> method_call \<Rightarrow> bool" where
  "issues_call this m =
     (case fst (invoke this m) of None \<Rightarrow> False | Some p \<Rightarrow> is_Await p)"

text \<open>A client that resolves every call with the same value.\<close>

definition answering :: "jsval \<Rightarrow> client_call \<Rightarrow> unit + jsval" where
  "answering v c = Inr v"

section \<open>Properties\<close>

lemmas method_defs =
  createUser_def deleteUser_def getUserDetailsById_def getUserPermissions_def
  getAccountDetails_def getManagedAccounts_def getManagedAccountIds_def requireMFA_def
  authenticate_def authenticateWithMFASessionToken_def changePassword_def tokenInfo_def
  initiateReset_def resetWithToken_def createRole_def deleteRole_def getGlobalRole_def
  getAccountRole_def getGlobalRoles_def getAccountRoles_def updateRole_def
  updateRoleName_def updateRolePermissions_def enrollMFA_def deleteMFA_def
  getUserDetails_def getUsers_def createAccessKey_def updateAccessKey_def getAccessKey_def
  getAccessKeys_def deleteAccessKey_def

subsection \<open>Retry budgets\<close>

text \<open>
  Claim C1, as the code has it. The descriptors of account details, managed accounts,
  managed account ids and user-by-id ask for 5 retries. The descriptor of the access-key
  listing sets no \<open>retry_count\<close> (it carries a cache TTL only), and neither does the
  descriptor of any mutating operation (every \<open>post\<close>, \<open>set\<close> and \<open>delete\<close>), nor
  that of any other read. For the four operations that splice an untyped argument into
  their payload, this is said of the call when one is issued.
\<close>

theorem retry_count_of_every_operation:
  "retry_count (request (issued (getAccountDetails this a))) = Some 5
   \<and> retry_count (request (issued (getManagedAccounts this a q))) = Some 5
   \<and> retry_count (request (issued (getManagedAccountIds this a q))) = Some 5
   \<and> retry_count (request (issued (getUserDetailsById this a u))) = Some 5
   \<and> retry_count (request (issued (getAccessKeys this a u t))) = None
   \<and> retry_count (request (issued (createUser this a n e m))) = None
   \<and> retry_count (request (issued (deleteUser this a u))) = None
   \<and> retry_count (request (issued (requireMFA this a b))) = None
   \<and> retry_count (request (issued (changePassword this e pw npw))) = None
   \<and> retry_count (request (issued (initiateReset this e r))) = None
   \<and> retry_count (request (issued (resetWithToken this tok pw))) = None
   \<and> retry_count (request (issued (deleteRole this a rid))) = None
   \<and> retry_count (request (issued (updateRoleName this a n))) = None
   \<and> retry_count (request (issued (deleteMFA this e))) = None
   \<and> retry_count (request (issued (createAccessKey this a u l))) = None
   \<and> retry_count (request (issued (updateAccessKey this k l))) = None
   \<and> retry_count (request (issued (deleteAccessKey this a u k))) = None
   \<and> (is_Await (createRole this a n perms)
        \<longrightarrow> retry_count (request (issued (createRole this a n perms))) = None)
   \<and> (is_Await (updateRole this a n perms)
        \<longrightarrow> retry_count (request (issued (updateRole this a n perms))) = None)
   \<and> (is_Await (updateRolePermissions this a perms)
        \<longrightarrow> retry_count (request (issued (updateRolePermissions this a perms)))
              = None)
   \<and> (is_Await (enrollMFA this uri codes)
        \<longrightarrow> retry_count (request (issued (enrollMFA this uri codes))) = None)
   \<and> retry_count (request (issued (getUserPermissions this a u))) = None
   \<and> retry_count (request (issued (tokenInfo this))) = None
   \<and> retry_count (request (issued (getGlobalRole this rid))) = None
   \<and> retry_count (request (issued (getAccountRole this a rid))) = None
   \<and> retry_count (request (issued (getGlobalRoles this))) = None
   \<and> retry_count (request (issued (getAccountRoles this a))) = None
   \<and> retry_count (request (issued (getUserDetails this a u q))) = None
   \<and> retry_count (request (issued (getUsers this a q))) = None
   \<and> retry_count (request (issued (getAccessKey this k))) = None"
  by (simp add: method_defs no_fields_def split: sum.splits)

text \<open>
  The witness of C1's theorem: a role with one permission and an MFA enrolment with two
  codes. Each issues its call, and the call asks for no retry.
\<close>

theorem retry_count_of_every_operation_witness:
  "is_Await (createRole (AIMSClient (answering JNull)) ''12345678'' ''Power User'' (JObj [(''*:own:*:*'', JStr ''allowed'')]))
   \<and> retry_count (request (issued (createRole (AIMSClient (answering JNull)) ''12345678'' ''Power User'' (JObj [(''*:own:*:*'', JStr ''allowed'')]))))
         = None
   \<and> is_Await (updateRole (AIMSClient (answering JNull)) ''12345678'' ''Power User'' (JObj [(''*:own:*:*'', JStr ''allowed'')]))
   \<and> retry_count (request (issued (updateRole (AIMSClient (answering JNull)) ''12345678'' ''Power User'' (JObj [(''*:own:*:*'', JStr ''allowed'')]))))
         = None
   \<and> is_Await (updateRolePermissions (AIMSClient (answering JNull)) ''12345678'' (JObj [(''*:own:*:*'', JStr ''allowed'')]))
   \<and> retry_count (request (issued (updateRolePermissions (AIMSClient (answering JNull)) ''12345678'' (JObj [(''*:own:*:*'', JStr ''allowed'')]))))
         = None
   \<and> is_Await (enrollMFA (AIMSClient (answering JNull)) ''otpauth://totp/x'' (JArr [JStr ''123456'', JStr ''456789'']))
   \<and> retry_count (request (issued (enrollMFA (AIMSClient (answering JNull)) ''otpauth://totp/x'' (JArr [JStr ''123456'', JStr ''456789'']))))
         = None"
proof -
  have issued:
    "is_Await (createRole (AIMSClient (answering JNull)) ''12345678'' ''Power User'' (JObj [(''*:own:*:*'', JStr ''allowed'')]))
   \<and> is_Await (updateRole (AIMSClient (answering JNull)) ''12345678'' ''Power User'' (JObj [(''*:own:*:*'', JStr ''allowed'')]))
   \<and> is_Await (updateRolePermissions (AIMSClient (answering JNull)) ''12345678'' (JObj [(''*:own:*:*'', JStr ''allowed'')]))
   \<and> is_Await (enrollMFA (AIMSClient (answering JNull)) ''otpauth://totp/x'' (JArr [JStr ''123456'', JStr ''456789'']))"
    by (simp add: createRole_def updateRole_def updateRolePermissions_def enrollMFA_def)
  from retry_count_of_every_operation
    [where this = "AIMSClient (answering JNull)" and a = "''12345678''" and n = "''Power User''"
       and perms = "JObj [(''*:own:*:*'', JStr ''allowed'')]" and uri = "''otpauth://totp/x''"
       and codes = "JArr [JStr ''123456'', JStr ''456789'']"]
    issued
  show ?thesis by simp
qed

text \<open>
  Claim C1 as stated fails at the access-key listing: its descriptor asks for no retry
  at all, exactly as the descriptor of a mutating operation.
\<close>


theorem getAccessKeys_requests_no_retry:
  "retry_count (request (issued
      (getAccessKeys (AIMSClient (answering JNull)) ''1000'' ''u-1'' None))) = None"
  by (simp add: getAccessKeys_def no_fields_def)


subsection \<open>Unwrapping the envelope of a list response\<close>

text \<open>
  Claim C2, as the code has it. For each of the six list operations, when the client
  resolves with an object: if the envelope field holds the empty collection, the
  operation returns the empty collection; if the object has no such field, nothing is
  raised and the operation returns \<open>undefined\<close>.
\<close>


theorem list_unwrap_of_object_response:
  fixes this :: "(client_call \<Rightarrow> 'e + jsval) AIMSClientInstance"
  assumes "(p, name) \<in> set
      [(getManagedAccounts this a q, ''accounts''),
       (getManagedAccountIds this a q, ''account_ids''),
       (getGlobalRoles this, ''roles''),
       (getAccountRoles this a, ''roles''),
       (getUsers this a q, ''users''),
       (getAccessKeys this a u t, ''access_keys'')]"
    and "this_client this (issued p) = Inr (JObj members)"
  shows "(map_of members name = Some (JArr []) \<longrightarrow> run this p = Inr (JArr []))
       \<and> (map_of members name = None \<longrightarrow> run this p = Inr JUndefined)"
  using assms by (auto simp: method_defs)

text \<open>
  The witness of C2's theorem: the listing of the global roles, on a client that answers
  with an empty \<open>roles\<close> collection, and on one whose answer has no field \<open>roles\<close>.
\<close>


theorem list_unwrap_of_object_response_witness:
  "run (AIMSClient (answering (JObj [(''roles'', JArr [])])))
       (getGlobalRoles (AIMSClient (answering (JObj [(''roles'', JArr [])])))) = Inr (JArr [])
   \<and> run (AIMSClient (answering (JObj [(''total'', JNum 0)])))
       (getGlobalRoles (AIMSClient (answering (JObj [(''total'', JNum 0)])))) = Inr JUndefined"
proof -
  let ?full = "AIMSClient (answering (JObj [(''roles'', JArr [])]))"
  let ?bare = "AIMSClient (answering (JObj [(''total'', JNum 0)]))"
  have present: "run ?full (getGlobalRoles ?full) = Inr (JArr [])"
    using list_unwrap_of_object_response
      [of "getGlobalRoles ?full" "''roles''" ?full _ _ _ _ "[(''roles'', JArr [])]"]
    by (simp add: AIMSClient_def new_AIMSClientInstance_def answering_def)
  have absent: "run ?bare (getGlobalRoles ?bare) = Inr JUndefined"
    using list_unwrap_of_object_response
      [of "getGlobalRoles ?bare" "''roles''" ?bare _ _ _ _ "[(''total'', JNum 0)]"]
    by (simp add: AIMSClient_def new_AIMSClientInstance_def answering_def)
  from present absent show ?thesis by simp
qed

text \<open>
  Claim C2 as stated fails: on the successful response \<open>{}\<close>, which lacks the field
  \<open>users\<close>, the listing of users raises no error of any kind. It resolves with
  \<open>undefined\<close>.
\<close>


theorem getUsers_absent_field_resolves:
  "run (AIMSClient (answering (JObj [])))
       (getUsers (AIMSClient (answering (JObj []))) ''1000'' None) = Inr JUndefined"
  by (simp add: getUsers_def AIMSClient_def new_AIMSClientInstance_def answering_def)

subsection \<open>Account ids\<close>

text \<open>
  Claim C3, as the code has it. An account-scoped operation called with the empty
  string as account id is not stopped on that account: it issues its client call, and
  the descriptor of the call has \<open>account_id\<close> set to the empty string. Creating and
  updating a role throw before the call exactly when the conversion of their untyped
  \<open>permissions\<close> to a string throws, whatever the account id; otherwise they too issue
  the call with the empty \<open>account_id\<close>. The global role fetch, the global role list
  and token-info issue a call whose descriptor has no \<open>account_id\<close>.
\<close>

theorem empty_account_id_is_sent:
  "is_Await (createUser this '''' n e m)
   \<and> account_id (request (issued (createUser this '''' n e m))) = Some ''''
   \<and> is_Await (deleteUser this '''' u)
   \<and> account_id (request (issued (deleteUser this '''' u))) = Some ''''
   \<and> is_Await (getUserDetailsById this '''' u)
   \<and> account_id (request (issued (getUserDetailsById this '''' u))) = Some ''''
   \<and> is_Await (getUserPermissions this '''' u)
   \<and> account_id (request (issued (getUserPermissions this '''' u))) = Some ''''
   \<and> is_Await (getUserDetails this '''' u q)
   \<and> account_id (request (issued (getUserDetails this '''' u q))) = Some ''''
   \<and> is_Await (getUsers this '''' q)
   \<and> account_id (request (issued (getUsers this '''' q))) = Some ''''
   \<and> is_Await (getAccountDetails this '''')
   \<and> account_id (request (issued (getAccountDetails this ''''))) = Some ''''
   \<and> is_Await (getManagedAccounts this '''' q)
   \<and> account_id (request (issued (getManagedAccounts this '''' q))) = Some ''''
   \<and> is_Await (getManagedAccountIds this '''' q)
   \<and> account_id (request (issued (getManagedAccountIds this '''' q))) = Some ''''
   \<and> is_Await (requireMFA this '''' b)
   \<and> account_id (request (issued (requireMFA this '''' b))) = Some ''''
   \<and> is_Await (deleteRole this '''' rid)
   \<and> account_id (request (issued (deleteRole this '''' rid))) = Some ''''
   \<and> is_Await (getAccountRole this '''' rid)
   \<and> account_id (request (issued (getAccountRole this '''' rid))) = Some ''''
   \<and> is_Await (getAccountRoles this '''')
   \<and> account_id (request (issued (getAccountRoles this ''''))) = Some ''''
   \<and> is_Await (updateRoleName this '''' n)
   \<and> account_id (request (issued (updateRoleName this '''' n))) = Some ''''
   \<and> is_Await (createAccessKey this '''' u l)
   \<and> account_id (request (issued (createAccessKey this '''' u l))) = Some ''''
   \<and> is_Await (getAccessKeys this '''' u t)
   \<and> account_id (request (issued (getAccessKeys this '''' u t))) = Some ''''
   \<and> is_Await (deleteAccessKey this '''' u k)
   \<and> account_id (request (issued (deleteAccessKey this '''' u k))) = Some ''''
   \<and> (createRole this '''' n perms = Throw err) = (toString perms = Inl err)
   \<and> (is_Await (createRole this '''' n perms)
        \<longrightarrow> account_id (request (issued (createRole this '''' n perms))) = Some '''')
   \<and> (updateRole this '''' n perms = Throw err) = (toString perms = Inl err)
   \<and> (is_Await (updateRole this '''' n perms)
        \<longrightarrow> account_id (request (issued (updateRole this '''' n perms))) = Some '''')
   \<and> (updateRolePermissions this '''' perms = Throw err) = (toString perms = Inl err)
   \<and> (is_Await (updateRolePermissions this '''' perms)
        \<longrightarrow> account_id (request (issued (updateRolePermissions this '''' perms)))
              = Some '''')
   \<and> is_Await (getGlobalRole this rid)
   \<and> account_id (request (issued (getGlobalRole this rid))) = None
   \<and> is_Await (getGlobalRoles this)
   \<and> account_id (request (issued (getGlobalRoles this))) = None
   \<and> is_Await (tokenInfo this)
   \<and> account_id (request (issued (tokenInfo this))) = None"
  by (simp add: method_defs no_fields_def split: sum.splits)

text \<open>
  The witness of C3's theorem: with the empty account id and one permission, the three
  role operations issue their call, and its \<open>account_id\<close> is the empty string.
\<close>

theorem empty_account_id_is_sent_witness:
  "is_Await (createRole (AIMSClient (answering JNull)) '''' ''Power User'' (JObj [(''*:own:*:*'', JStr ''allowed'')]))
   \<and> account_id (request (issued (createRole (AIMSClient (answering JNull)) '''' ''Power User'' (JObj [(''*:own:*:*'', JStr ''allowed'')]))))
         = Some ''''
   \<and> is_Await (updateRole (AIMSClient (answering JNull)) '''' ''Power User'' (JObj [(''*:own:*:*'', JStr ''allowed'')]))
   \<and> account_id (request (issued (updateRole (AIMSClient (answering JNull)) '''' ''Power User'' (JObj [(''*:own:*:*'', JStr ''allowed'')]))))
         = Some ''''
   \<and> is_Await (updateRolePermissions (AIMSClient (answering JNull)) '''' (JObj [(''*:own:*:*'', JStr ''allowed'')]))
   \<and> account_id (request (issued (updateRolePermissions (AIMSClient (answering JNull)) '''' (JObj [(''*:own:*:*'', JStr ''allowed'')]))))
         = Some ''''"
proof -
  have issued:
    "is_Await (createRole (AIMSClient (answering JNull)) '''' ''Power User'' (JObj [(''*:own:*:*'', JStr ''allowed'')]))
   \<and> is_Await (updateRole (AIMSClient (answering JNull)) '''' ''Power User'' (JObj [(''*:own:*:*'', JStr ''allowed'')]))
   \<and> is_Await (updateRolePermissions (AIMSClient (answering JNull)) '''' (JObj [(''*:own:*:*'', JStr ''allowed'')]))"
    by (simp add: createRole_def updateRole_def updateRolePermissions_def enrollMFA_def)
  from empty_account_id_is_sent
    [where this = "AIMSClient (answering JNull)" and n = "''Power User''" and perms
          = "JObj [(''*:own:*:*'', JStr ''allowed'')]"]
    issued
  show ?thesis by simp
qed

text \<open>
  Claim C3 as stated fails: the account details of the account id \<open>""\<close> are asked of
  the client, and what the client resolves with is what the caller gets. Nothing fails
  locally.
\<close>


theorem getAccountDetails_empty_account_id_reaches_client:
  "issued (getAccountDetails (AIMSClient (answering JNull)) '''') =
     Client_fetch \<lparr>service_name = Some ''aims'', environment = Some ''production'',
       account_id = Some '''', path = Some ''/account'', params = None, data = None,
       ttl = None, retry_count = Some 5\<rparr>
   \<and> run (AIMSClient (answering (JObj [(''id'', JStr '''')])))
         (getAccountDetails (AIMSClient (answering (JObj [(''id'', JStr '''')]))) '''')
       = Inr (JObj [(''id'', JStr '''')])"
  by (simp add: getAccountDetails_def no_fields_def AIMSClient_def new_AIMSClientInstance_def
      answering_def)

text \<open>
  Claim C5. Every operation that is given an account id (the user, role and access-key
  operations under an account, and the account operations) sets \<open>account_id\<close> of its
  descriptor to that id. The global role fetch, the global role list and token-info
  build a descriptor that has no \<open>account_id\<close>, as do the other operations that take
  no account id; the two authentication operations hand the client their arguments and
  the environment, and no account id. For the four operations that splice an untyped
  argument into their payload, this is said of the descriptor when one is built.
\<close>

theorem account_scoping:
  "account_id (request (issued (createUser this a n e m))) = Some a
   \<and> account_id (request (issued (deleteUser this a u))) = Some a
   \<and> account_id (request (issued (getUserDetailsById this a u))) = Some a
   \<and> account_id (request (issued (getUserPermissions this a u))) = Some a
   \<and> account_id (request (issued (getUserDetails this a u q))) = Some a
   \<and> account_id (request (issued (getUsers this a q))) = Some a
   \<and> account_id (request (issued (getAccountDetails this a))) = Some a
   \<and> account_id (request (issued (getManagedAccounts this a q))) = Some a
   \<and> account_id (request (issued (getManagedAccountIds this a q))) = Some a
   \<and> account_id (request (issued (requireMFA this a b))) = Some a
   \<and> account_id (request (issued (deleteRole this a rid))) = Some a
   \<and> account_id (request (issued (getAccountRole this a rid))) = Some a
   \<and> account_id (request (issued (getAccountRoles this a))) = Some a
   \<and> account_id (request (issued (updateRoleName this a n))) = Some a
   \<and> account_id (request (issued (createAccessKey this a u l))) = Some a
   \<and> account_id (request (issued (getAccessKeys this a u t))) = Some a
   \<and> account_id (request (issued (deleteAccessKey this a u k))) = Some a
   \<and> (is_Await (createRole this a n perms)
        \<longrightarrow> account_id (request (issued (createRole this a n perms))) = Some a)
   \<and> (is_Await (updateRole this a n perms)
        \<longrightarrow> account_id (request (issued (updateRole this a n perms))) = Some a)
   \<and> (is_Await (updateRolePermissions this a perms)
        \<longrightarrow> account_id (request (issued (updateRolePermissions this a perms)))
              = Some a)
   \<and> account_id (request (issued (getGlobalRole this rid))) = None
   \<and> account_id (request (issued (getGlobalRoles this))) = None
   \<and> account_id (request (issued (tokenInfo this))) = None
   \<and> account_id (request (issued (changePassword this e pw npw))) = None
   \<and> account_id (request (issued (initiateReset this e r))) = None
   \<and> account_id (request (issued (resetWithToken this tok pw))) = None
   \<and> account_id (request (issued (deleteMFA this e))) = None
   \<and> account_id (request (issued (updateAccessKey this k l))) = None
   \<and> account_id (request (issued (getAccessKey this k))) = None
   \<and> (is_Await (enrollMFA this uri codes)
        \<longrightarrow> account_id (request (issued (enrollMFA this uri codes))) = None)
   \<and> issued (authenticate this user pass mfa) =
       Client_authenticate user pass mfa (this_environment this)
   \<and> issued (authenticateWithMFASessionToken this tok mfa') =
       Client_authenticateWithMFASessionToken tok mfa' (this_environment this)"
  by (simp add: method_defs no_fields_def split: sum.splits)

text \<open>
  The witness of C5's theorem: a role with one permission under the account 12345678,
  and an MFA enrolment with two codes.
\<close>

theorem account_scoping_witness:
  "is_Await (createRole (AIMSClient (answering JNull)) ''12345678'' ''Power User'' (JObj [(''*:own:*:*'', JStr ''allowed'')]))
   \<and> account_id (request (issued (createRole (AIMSClient (answering JNull)) ''12345678'' ''Power User'' (JObj [(''*:own:*:*'', JStr ''allowed'')]))))
         = Some ''12345678''
   \<and> is_Await (updateRole (AIMSClient (answering JNull)) ''12345678'' ''Power User'' (JObj [(''*:own:*:*'', JStr ''allowed'')]))
   \<and> account_id (request (issued (updateRole (AIMSClient (answering JNull)) ''12345678'' ''Power User'' (JObj [(''*:own:*:*'', JStr ''allowed'')]))))
         = Some ''12345678''
   \<and> is_Await (updateRolePermissions (AIMSClient (answering JNull)) ''12345678'' (JObj [(''*:own:*:*'', JStr ''allowed'')]))
   \<and> account_id (request (issued (updateRolePermissions (AIMSClient (answering JNull)) ''12345678'' (JObj [(''*:own:*:*'', JStr ''allowed'')]))))
         = Some ''12345678''
   \<and> is_Await (enrollMFA (AIMSClient (answering JNull)) ''otpauth://totp/x'' (JArr [JStr ''123456'', JStr ''456789'']))
   \<and> account_id (request (issued (enrollMFA (AIMSClient (answering JNull)) ''otpauth://totp/x'' (JArr [JStr ''123456'', JStr ''456789'']))))
         = None"
proof -
  have issued:
    "is_Await (createRole (AIMSClient (answering JNull)) ''12345678'' ''Power User'' (JObj [(''*:own:*:*'', JStr ''allowed'')]))
   \<and> is_Await (updateRole (AIMSClient (answering JNull)) ''12345678'' ''Power User'' (JObj [(''*:own:*:*'', JStr ''allowed'')]))
   \<and> is_Await (updateRolePermissions (AIMSClient (answering JNull)) ''12345678'' (JObj [(''*:own:*:*'', JStr ''allowed'')]))
   \<and> is_Await (enrollMFA (AIMSClient (answering JNull)) ''otpauth://totp/x'' (JArr [JStr ''123456'', JStr ''456789'']))"
    by (simp add: createRole_def updateRole_def updateRolePermissions_def enrollMFA_def)
  from account_scoping
    [where this = "AIMSClient (answering JNull)" and a = "''12345678''" and n = "''Power User''"
       and perms = "JObj [(''*:own:*:*'', JStr ''allowed'')]" and uri = "''otpauth://totp/x''"
       and codes = "JArr [JStr ''123456'', JStr ''456789'']"]
    issued
  show ?thesis by simp
qed

subsection \<open>Payloads\<close>




subsection \<open>The two scenarios\<close>

text \<open>
  Claim C6, as the code has it. \<open>getAccessKeys("1000", "u-1", 60000)\<close> hands the
  client a fetch descriptor with path \<open>/users/u-1/access_keys?out=full\<close>, account id
  \<open>1000\<close>, TTL 60000 and no \<open>retry_count\<close>; leaving the TTL out gives the same call.
  When the client resolves with \<open>{access_keys: [{id: "k1", label: "api"}]}\<close>, the
  operation returns the one-element list \<open>[{id: "k1", label: "api"}]\<close>.
\<close>


theorem getAccessKeys_scenario:
  fixes this :: "(client_call \<Rightarrow> 'e + jsval) AIMSClientInstance"
  assumes "this_client this (issued (getAccessKeys this ''1000'' ''u-1'' (Some 60000))) =
             Inr (JObj [(''access_keys'', JArr [JObj [(''id'', JStr ''k1''), (''label'', JStr ''api'')]])])"
  shows "issued (getAccessKeys this ''1000'' ''u-1'' (Some 60000)) =
           Client_fetch \<lparr>service_name = Some (this_serviceName this),
             environment = Some (this_environment this), account_id = Some ''1000'',
             path = Some ''/users/u-1/access_keys?out=full'', params = None, data = None,
             ttl = Some 60000, retry_count = None\<rparr>
       \<and> getAccessKeys this ''1000'' ''u-1'' None = getAccessKeys this ''1000'' ''u-1'' (Some 60000)
       \<and> run this (getAccessKeys this ''1000'' ''u-1'' (Some 60000)) =
           Inr (JArr [JObj [(''id'', JStr ''k1''), (''label'', JStr ''api'')]])"
  using assms by (simp add: getAccessKeys_def no_fields_def)

text \<open>
  The witness of C6's theorem: the exported instance, on a client that answers with
  that response.
\<close>


theorem getAccessKeys_scenario_witness:
  "issued (getAccessKeys (AIMSClient (answering (JObj [(''access_keys'', JArr [JObj [(''id'', JStr ''k1''), (''label'', JStr ''api'')]])]))) ''1000'' ''u-1'' (Some 60000)) =
           Client_fetch \<lparr>service_name = Some ''aims'',
             environment = Some ''production'', account_id = Some ''1000'',
             path = Some ''/users/u-1/access_keys?out=full'', params = None, data = None,
             ttl = Some 60000, retry_count = None\<rparr>
   \<and> run (AIMSClient (answering (JObj [(''access_keys'', JArr [JObj [(''id'', JStr ''k1''), (''label'', JStr ''api'')]])])))
         (getAccessKeys (AIMSClient (answering (JObj [(''access_keys'', JArr [JObj [(''id'', JStr ''k1''), (''label'', JStr ''api'')]])]))) ''1000'' ''u-1'' (Some 60000)) =
           Inr (JArr [JObj [(''id'', JStr ''k1''), (''label'', JStr ''api'')]])"
  using getAccessKeys_scenario [of "AIMSClient (answering (JObj [(''access_keys'', JArr [JObj [(''id'', JStr ''k1''), (''label'', JStr ''api'')]])]))"]
  by (simp add: AIMSClient_def new_AIMSClientInstance_def answering_def getAccessKeys_def
      no_fields_def)

text \<open>
  Claim C6 as stated fails in one point: the descriptor does not carry the retry
  budget 5.
\<close>


theorem getAccessKeys_scenario_no_retry:
  "retry_count (request (issued (getAccessKeys (AIMSClient (answering JNull)) ''1000'' ''u-1'' (Some 60000)))) \<noteq> Some 5"
  by (simp add: getAccessKeys_def no_fields_def)

text \<open>
  Claim C7, as the code has it. \<open>createUser("1000", "Bob Dobalina", "bob@example.com",
  "123-555-0123")\<close> hands the client a create (\<open>post\<close>) descriptor with path
  \<open>/users\<close>, account id \<open>1000\<close>, no \<open>retry_count\<close>, and as payload the string that
  spells the mapping out as JSON text.
\<close>


theorem createUser_scenario:
  \<open>issued (createUser this ''1000'' ''Bob Dobalina'' ''bob@example.com'' ''123-555-0123'') =
     Client_post \<lparr>service_name = Some (this_serviceName this),
       environment = Some (this_environment this), account_id = Some ''1000'',
       path = Some ''/users'', params = None,
       data = Some (JStr
         ''{"name": "Bob Dobalina", "email": "bob@example.com", "mobile_phone": "123-555-0123"}''),
       ttl = None, retry_count = None\<rparr>\<close>
  by (simp add: createUser_def no_fields_def)

text \<open>
  Claim C7 as stated fails in one point: the payload is not the mapping
  \<open>{name, email, mobile_phone}\<close> itself.
\<close>


theorem createUser_scenario_payload_not_a_mapping:
  "data (request (issued
      (createUser (AIMSClient (answering JNull)) ''1000'' ''Bob Dobalina'' ''bob@example.com'' ''123-555-0123'')))
   \<noteq> Some (JObj [(''name'', JStr ''Bob Dobalina''), (''email'', JStr ''bob@example.com''),
         (''mobile_phone'', JStr ''123-555-0123'')])"
  by (simp add: createUser_def no_fields_def)

subsection \<open>Paths of the role updates\<close>

text \<open>
  Claim C8 fails on the code. The three role updates are documented as posting to
  \<open>/aims/v1/:account_id/roles/:role_id\<close>, but they take no role id and post to
  \<open>/roles\<close>: updating the role "Mega Power User" of account 12345678 issues the very
  call that creating a role of that name issues.
\<close>


theorem update_role_path_has_no_role_id:
  "issued (updateRole (AIMSClient (answering JNull)) ''12345678'' ''Mega Power User'' (JObj [])) =
     issued (createRole (AIMSClient (answering JNull)) ''12345678'' ''Mega Power User'' (JObj []))
   \<and> path (request (issued (updateRole (AIMSClient (answering JNull)) ''12345678'' ''Mega Power User'' (JObj []))))
       = Some ''/roles''
   \<and> path (request (issued (updateRoleName (AIMSClient (answering JNull)) ''12345678'' ''Mega Power User'')))
       = Some ''/roles''
   \<and> path (request (issued (updateRolePermissions (AIMSClient (answering JNull)) ''12345678'' (JObj []))))
       = Some ''/roles''"
  by (simp add: updateRole_def createRole_def updateRoleName_def updateRolePermissions_def
      no_fields_def)

subsection \<open>The environment\<close>

lemma invoke_request:
  "\<not> is_setter m \<Longrightarrow>
     \<exists>p. invoke this m = (Some p, this)
       \<and> (is_Await p \<or> splices_untyped m)
       \<and> (is_Await p \<longrightarrow>
             environment_of (issued p) = Some (this_environment this)
             \<and> service_name_of (issued p) =
                 (if authenticates m then None else Some (this_serviceName this)))"
  by (cases m) (simp_all add: method_defs no_fields_def split: sum.splits)

lemma issues_call_request:
  assumes "issues_call this m"
  shows "\<exists>c k. invoke this m = (Some (Await c k), this)
           \<and> environment_of c = Some (this_environment this)"
proof -
  from assms have "\<not> is_setter m"
    by (cases m) (simp_all add: issues_call_def)
  with invoke_request [of m this] obtain p where
    p: "invoke this m = (Some p, this)"
      "is_Await p \<longrightarrow> environment_of (issued p) = Some (this_environment this)"
    by blast
  from assms p(1) have "is_Await p"
    by (simp add: issues_call_def)
  with p show ?thesis
    by (cases p) simp_all
qed

lemma invoke_keeps_client_and_service:
  "this_client (snd (invoke this m)) = this_client this
   \<and> this_serviceName (snd (invoke this m)) = this_serviceName this"
  by (cases m) (simp_all add: setProductionEnv_def setIntegrationEnv_def)

lemma session_keeps_client_and_service:
  "this_client (snd (session this ms)) = this_client this
   \<and> this_serviceName (snd (session this ms)) = this_serviceName this"
proof (induction ms arbitrary: this)
  case Nil
  show ?case by simp
next
  case (Cons m ms)
  obtain r this' where step: "invoke this m = (r, this')"
    by (cases "invoke this m")
  with invoke_keeps_client_and_service [of this m]
  have kept: "this_client this' = this_client this"
    "this_serviceName this' = this_serviceName this"
    by simp_all
  obtain cs final where rest: "session this' ms = (cs, final)"
    by (cases "session this' ms")
  from Cons.IH [of this'] rest kept
  have "this_client final = this_client this \<and> this_serviceName final = this_serviceName this"
    by simp
  with step rest show ?case
    by (simp split: option.splits pending.splits)
qed


text \<open>
  Claim C9. On one instance used sequentially: select the integration environment,
  issue a request, select the production environment, issue a request, where the two
  requests are any method calls that issue their client call. The first client call
  is tagged \<open>integration\<close> and the second \<open>production\<close>, and no other call is issued.
\<close>

theorem environment_switch_sequential:
  assumes "issues_call (setIntegrationEnv this) m1"
    and "issues_call (setProductionEnv (setIntegrationEnv this)) m2"
  shows "map environment_of
           (fst (session this [Call_setIntegrationEnv, m1, Call_setProductionEnv, m2]))
         = [Some ''integration'', Some ''production'']"
proof -
  let ?int = "setIntegrationEnv this"
  let ?prod = "setProductionEnv ?int"
  from issues_call_request [OF assms(1)] obtain c1 k1 where
    p1: "invoke ?int m1 = (Some (Await c1 k1), ?int)"
      "environment_of c1 = Some (this_environment ?int)"
    by blast
  from issues_call_request [OF assms(2)] obtain c2 k2 where
    p2: "invoke ?prod m2 = (Some (Await c2 k2), ?prod)"
      "environment_of c2 = Some (this_environment ?prod)"
    by blast
  from p1 p2 show ?thesis
    by (simp add: setIntegrationEnv_def setProductionEnv_def)
qed

text \<open>
  The witness of C9's theorem: the account details, then the creation of a role with
  one permission, on the exported instance.
\<close>

theorem environment_switch_sequential_witness:
  "issues_call (setIntegrationEnv (AIMSClient (answering JNull))) (Call_getAccountDetails ''1000'')
   \<and> issues_call (setProductionEnv (setIntegrationEnv (AIMSClient (answering JNull))))
        (Call_createRole ''1000'' ''Power User'' (JObj [(''*:own:*:*'', JStr ''allowed'')]))
   \<and> map environment_of
        (fst (session (AIMSClient (answering JNull))
           [Call_setIntegrationEnv, Call_getAccountDetails ''1000'', Call_setProductionEnv,
            Call_createRole ''1000'' ''Power User'' (JObj [(''*:own:*:*'', JStr ''allowed'')])]))
      = [Some ''integration'', Some ''production'']"
proof -
  have first: "issues_call (setIntegrationEnv (AIMSClient (answering JNull))) (Call_getAccountDetails ''1000'')"
    by (simp add: issues_call_def getAccountDetails_def)
  have second: "issues_call (setProductionEnv (setIntegrationEnv (AIMSClient (answering JNull))))
      (Call_createRole ''1000'' ''Power User'' (JObj [(''*:own:*:*'', JStr ''allowed'')]))"
    by (simp add: issues_call_def createRole_def)
  from environment_switch_sequential [OF first second] first second
  show ?thesis by simp
qed

text \<open>
  Claim C10, as the code has it. Take an instance as any sequence of method calls
  leaves a newly constructed one (whose environment is \<open>production\<close>). Its service
  name is \<open>aims\<close>. No method changes the client or the service name, and a method
  other than the two setters changes nothing at all. Such a method issues its client
  call, unless it is one of the four that splice an untyped argument and it throws
  before the call. A call that is issued is tagged with the current environment of the
  instance, and it carries the service name \<open>aims\<close>, except for the two authentication
  methods, whose calls carry no service name.
\<close>

theorem requests_tagged_and_state_kept:
  assumes "this = snd (session (new_AIMSClientInstance AlDefaultClient client) ms)"
    and "invoke this m = (r, this')"
  shows "this_serviceName this = ''aims''
       \<and> this_environment (new_AIMSClientInstance AlDefaultClient client) = ''production''
       \<and> this_client this' = this_client this
       \<and> this_serviceName this' = this_serviceName this
       \<and> (\<not> is_setter m \<longrightarrow>
            this' = this
            \<and> (\<exists>p. r = Some p
                 \<and> (is_Await p \<or> splices_untyped m)
                 \<and> (is_Await p \<longrightarrow>
                       environment_of (issued p) = Some (this_environment this)
                       \<and> service_name_of (issued p) =
                           (if authenticates m then None else Some ''aims''))))"
proof -
  have name: "this_serviceName this = ''aims''"
    using session_keeps_client_and_service [of "new_AIMSClientInstance AlDefaultClient client" ms]
      assms(1)
    by (simp add: new_AIMSClientInstance_def)
  have kept: "this_client this' = this_client this \<and> this_serviceName this'
        = this_serviceName this"
    using invoke_keeps_client_and_service [of this m] assms(2) by simp
  have request: "\<not> is_setter m \<longrightarrow>
      this' = this
      \<and> (\<exists>p. r = Some p
           \<and> (is_Await p \<or> splices_untyped m)
           \<and> (is_Await p \<longrightarrow>
                 environment_of (issued p) = Some (this_environment this)
                 \<and> service_name_of (issued p) =
                     (if authenticates m then None else Some ''aims'')))"
    using invoke_request [of m this] assms(2) name by auto
  from name kept request show ?thesis
    by (simp add: new_AIMSClientInstance_def)
qed

text \<open>
  The witness of C10's theorem: token-info on the exported instance after the
  integration environment was selected.
\<close>

theorem requests_tagged_and_state_kept_witness:
  "\<not> is_setter Call_tokenInfo
   \<and> invoke (setIntegrationEnv (AIMSClient (answering JNull))) Call_tokenInfo =
       (Some (tokenInfo (setIntegrationEnv (AIMSClient (answering JNull)))),
        setIntegrationEnv (AIMSClient (answering JNull)))
   \<and> is_Await (tokenInfo (setIntegrationEnv (AIMSClient (answering JNull))))
   \<and> service_name_of (issued (tokenInfo (setIntegrationEnv (AIMSClient (answering JNull)))))
       = Some ''aims''
   \<and> environment_of (issued (tokenInfo (setIntegrationEnv (AIMSClient (answering JNull)))))
       = Some ''integration''"
proof -
  let ?new = "AIMSClient (answering JNull)"
  let ?inst = "setIntegrationEnv ?new"
  have reached: "?inst = snd (session (new_AIMSClientInstance (answering JNull) None)
      [Call_setIntegrationEnv])"
    by (simp add: AIMSClient_def)
  have step: "invoke ?inst Call_tokenInfo = (Some (tokenInfo ?inst), ?inst)"
    by simp
  have awaits: "is_Await (tokenInfo ?inst)"
    by (simp add: tokenInfo_def)
  from requests_tagged_and_state_kept [OF reached step] awaits
  have "environment_of (issued (tokenInfo ?inst)) = Some (this_environment ?inst)
      \<and> service_name_of (issued (tokenInfo ?inst)) = Some ''aims''"
    by simp
  with step awaits show ?thesis
    by (simp add: setIntegrationEnv_def)
qed

text \<open>
  Claim C10 as stated fails at \<open>authenticate\<close>: the call it hands to the client has
  the user, the password, the MFA code and the environment, and no service name.
\<close>


theorem authenticate_passes_no_service_name:
  "issued (authenticate (AIMSClient (answering JNull)) ''admin@company.com'' ''hunter2'' None) =
     Client_authenticate ''admin@company.com'' ''hunter2'' None ''production''
   \<and> service_name_of
        (issued (authenticate (AIMSClient (answering JNull)) ''admin@company.com'' ''hunter2'' None))
      \<noteq> Some ''aims''"
  by (simp add: authenticate_def AIMSClient_def new_AIMSClientInstance_def)

end
